theory Spec2Isabelle
  imports Main "HOL-Library.AList" "HOL-Library.Multiset"
begin

text \<open>
  The course value class of data/course.py and three functions of collector/db/db.py:
  \<open>load_campus_id\<close>, \<open>load_courses_choices\<close> (the choice index builder) and
  \<open>load_activities_by_courses_choices\<close> (the activity retriever), with the queries they
  run read as filters over the tables of the database.
\<close>

section \<open>Python values and errors\<close>

text \<open>
  The exceptions the modelled functions can raise. \<open>TypeError\<close> is what subscripting
  \<open>None\<close> raises (\<open>cursor.fetchone()[0]\<close> when the query matched no row),
  \<open>AttributeError\<close> is what calling \<open>update\<close> on a list raises, and
  \<open>OperationalError\<close> is sqlite3's error for a query on a table that does not exist.
\<close>

datatype py_error = TypeError | AttributeError | OperationalError

text \<open>Python's truth value of an \<open>Optional[str]\<close>: \<open>None\<close> and the empty string are false.\<close>

definition truthy :: "string option \<Rightarrow> bool" where
  "truthy v = (case v of None \<Rightarrow> False | Some s \<Rightarrow> s \<noteq> [])"

text \<open>
  Modelled from the spec: the enumeration \<open>Type\<close> (data/type.py) is not among the sources.
  db.py names its members LECTURE, SEMINAR, PRACTICE and LAB; the spec calls it a closed
  enumeration of lecture, seminar, practice, lab "or other".
\<close>

datatype Type = LECTURE | SEMINAR | PRACTICE | LAB | OTHER

text \<open>
  Modelled from the spec: \<open>Type.is_lecture\<close> is not among the sources; the spec groups
  LECTURE and SEMINAR as lecture-like.
\<close>

definition is_lecture :: "Type \<Rightarrow> bool" where
  "is_lecture t = (t = LECTURE \<or> t = SEMINAR)"

text \<open>
  Modelled from the spec: \<open>Type.is_exercise\<close> is not among the sources; the spec groups
  PRACTICE and LAB as practice-like.
\<close>

definition is_exercise :: "Type \<Rightarrow> bool" where
  "is_exercise t = (t = PRACTICE \<or> t = LAB)"


section \<open>data/course.py: the class Course\<close>

text \<open>
  The attribute \<open>semesters\<close> is a set after \<open>__init__\<close>; \<open>Database.load_courses\<close>
  assigns a list to it. The enumeration \<open>Semester\<close> is not among the sources and is the
  type parameter \<open>'s\<close>.
\<close>

datatype 's semesters_value = SemSet "'s set" | SemList "'s list"

text \<open>The argument \<open>semesters: Union[Semester, Set[Semester]]\<close>.\<close>

datatype 's semesters_arg = One 's | Many "'s set"

record 's course =
  name :: string
  course_number :: int
  parent_course_number :: int
  attendance_required_for_lecture :: bool
  attendance_required_for_practice :: bool
  activity_id :: "string option"
  actual_course_number :: "int option"
  semesters :: "'s semesters_value"

text \<open>\<open>Course.__init__\<close>; an omitted argument is \<open>None\<close>.\<close>

definition Course_init ::
  "string \<Rightarrow> int \<Rightarrow> int \<Rightarrow> string option \<Rightarrow> int option \<Rightarrow> 's semesters_arg option \<Rightarrow> 's course" where
  "Course_init n cn pcn aid acn sems =
     \<lparr>course.name = n, course_number = cn, parent_course_number = pcn,
      attendance_required_for_lecture = True, attendance_required_for_practice = True,
      activity_id = aid, actual_course_number = acn,
      semesters = SemSet (case sems of None \<Rightarrow> {} | Some (One s) \<Rightarrow> {s} | Some (Many S) \<Rightarrow> S)\<rparr>"

text \<open>
  \<open>Course.add_semesters\<close>. The object is mutated in place; the model returns the new
  object. When \<open>semesters\<close> holds a list, \<open>self.semesters.update\<close> raises before anything
  is changed.
\<close>

definition add_semesters :: "'s course \<Rightarrow> 's semesters_arg \<Rightarrow> py_error + 's course" where
  "add_semesters self arg =
     (let new = (case arg of One s \<Rightarrow> {s} | Many S \<Rightarrow> S)
      in case semesters self of
           SemSet cur \<Rightarrow> Inr (self\<lparr>semesters := SemSet (cur \<union> new)\<rparr>)
         | SemList _ \<Rightarrow> Inl AttributeError)"

text \<open>\<open>Course.__eq__\<close>, for two Course values.\<close>

definition course_eq :: "'s course \<Rightarrow> 's course \<Rightarrow> bool" where
  "course_eq self other =
     (if truthy (activity_id self) \<and> truthy (activity_id other)
      then activity_id self = activity_id other
      else course.name self = course.name other
         \<and> course_number self = course_number other
         \<and> parent_course_number self = parent_course_number other)"

text \<open>
  \<open>Course.__hash__\<close>. Python's builtin \<open>hash\<close> on tuples is the parameter \<open>h\<close>; with
  \<open>h = id\<close> the result is the tuple that is hashed.
\<close>

definition course_hash :: "(string \<times> int \<times> int \<Rightarrow> 'h) \<Rightarrow> 's course \<Rightarrow> 'h" where
  "course_hash h self =
     h (course.name self, course_number self, parent_course_number self)"

text \<open>\<open>Course.set_attendance_required\<close>.\<close>

definition set_attendance_required :: "'s course \<Rightarrow> Type \<Rightarrow> bool \<Rightarrow> 's course" where
  "set_attendance_required self course_type required =
     (if is_lecture course_type then self\<lparr>attendance_required_for_lecture := required\<rparr>
      else if is_exercise course_type then self\<lparr>attendance_required_for_practice := required\<rparr>
      else self)"


section \<open>The database file\<close>

text \<open>
  Rows are the tuples sqlite3 returns, in the column order of \<open>init_database_tables\<close>:
  \<^item> campuses: id, english_name, hebrew_name;
  \<^item> courses: name, course_number, parent_course_number, language_value;
  \<^item> courses_lecturers: course_number, parent_course_number, lecturer_name,
    is_lecture_rule, campus_id, language_value;
  \<^item> activities_meetings: activity_id, meeting_id, campus_id, language_value;
  \<^item> meetings: id, day, start_time, end_time.

  A table is the list of its rows in the order a scan returns them. Two columns can hold
  NULL in the model: \<open>lecturer_name\<close>, which the queries of db.py test with
  \<open>IS NOT NULL\<close>, and \<open>activity_id\<close> of the table activities, which is declared
  \<open>TEXT\<close> without \<open>NOT NULL\<close> and which SQLite's \<open>PRIMARY KEY\<close> lets be NULL in any
  number of rows. The columns that the WHERE and ON clauses compare with a bound value
  (names, numbers, campus ids, language values, the activity id of a link) are non-NULL:
  a row with NULL there satisfies none of these comparisons.
\<close>

type_synonym campus_row = "int \<times> string \<times> string"
type_synonym course_row = "string \<times> int \<times> int \<times> string"
type_synonym course_lecturer_row = "int \<times> int \<times> string option \<times> bool \<times> int \<times> string"
type_synonym activity_meeting_row = "string \<times> int \<times> int \<times> string"
type_synonym meeting_row = "int \<times> int \<times> string \<times> string"

text \<open>data/meeting.py is not among the sources; a Meeting holds the columns of its row.\<close>

record meeting =
  meeting_id :: int
  day :: int
  start_time :: string
  end_time :: string

text \<open>
  data/course_choice.py is not among the sources; db.py constructs
  \<open>CourseChoice(course_name, list(lectures), list(practices))\<close> and reads the two
  attributes below.
\<close>

record course_choice =
  name :: string
  available_teachers_for_lecture :: "string option list"
  available_teachers_for_practice :: "string option list"

text \<open>
  The first twelve columns of the table activities are the arguments of
  \<open>AcademicActivity(*data_line)\<close>; a row has \<open>campus_id\<close> and \<open>language_value\<close> after them,
  an AcademicActivity has its \<open>meetings\<close>. data/academic_activity.py is not among the
  sources.
\<close>

record activity_data =
  name :: string
  activity_type :: Type
  attendance_required :: bool
  lecturer_name :: "string option"
  course_number :: int
  parent_course_number :: int
  location :: string
  activity_id :: "string option"
  description :: string
  current_capacity :: int
  max_capacity :: int
  actual_course_number :: int

record activity_row = activity_data +
  campus_id :: int
  language_value :: string

record tables =
  campuses :: "campus_row list"
  courses :: "course_row list"
  courses_lecturers :: "course_lecturer_row list"
  activities :: "activity_row list"
  activities_meetings :: "activity_meeting_row list"
  meetings :: "meeting_row list"

record academic_activity = activity_data +
  meetings :: "meeting list"

text \<open>
  \<open>Missing\<close>: no file at \<open>DATABASE_PATH\<close>. \<open>Present\<close>: the file exists and holds the tables
  of \<open>init_database_tables\<close>. The functions below only read the database; each is one call
  from the given state.
\<close>

datatype database_file = Missing | Present tables


section \<open>collector/db/db.py: resolving the campus\<close>

text \<open>
  \<open>Database.load_campus_id\<close>. \<open>sqlite3.connect\<close> creates the file when it is missing, and
  the query then finds no table. \<open>fetchone()\<close> is the first matching row, or \<open>None\<close>,
  whose subscript raises.
\<close>

definition load_campus_id :: "database_file \<Rightarrow> string \<Rightarrow> py_error + int" where
  "load_campus_id db campus_name =
     (case db of
        Missing \<Rightarrow> Inl OperationalError
      | Present t \<Rightarrow>
          (case filter (\<lambda>(cid, english_name, hebrew_name).
                          english_name = campus_name \<or> hebrew_name = campus_name)
                       (campuses t) of
             [] \<Rightarrow> Inl TypeError
           | row # _ \<Rightarrow> Inr (fst row)))"


section \<open>collector/db/db.py: the choice index builder\<close>

text \<open>
  \<open>Database.load_active_courses\<close>: \<open>SELECT DISTINCT courses.*\<close> joined with activities.
  \<open>Course(*data_line)\<close> passes the four columns positionally, so \<open>language_value\<close> is the
  argument \<open>activity_id\<close>.
\<close>

definition load_active_courses ::
  "database_file \<Rightarrow> string \<Rightarrow> string \<Rightarrow> py_error + 's course list" where
  "load_active_courses db campus_name language =
     (case db of
        Missing \<Rightarrow> Inr []
      | Present t \<Rightarrow>
          (case load_campus_id db campus_name of
             Inl e \<Rightarrow> Inl e
           | Inr cid \<Rightarrow>
               Inr (map (\<lambda>(n, cn, pcn, lv). Course_init n cn pcn (Some lv) None None)
                     (remdups (filter (\<lambda>(n, cn, pcn, lv).
                         lv = language \<and>
                         (\<exists>a \<in> set (activities t).
                            parent_course_number a = pcn \<and> course_number a = cn \<and>
                            language_value a = lv \<and> campus_id a = cid))
                       (courses t))))))"

text \<open>
  The query of the loop body of \<open>load_courses_choices\<close>: the pairs
  \<open>(lecturer_name, is_lecture_rule)\<close> of one course in the scope.
\<close>

definition select_lecturer_roles ::
  "tables \<Rightarrow> int \<Rightarrow> string \<Rightarrow> 's course \<Rightarrow> (string option \<times> bool) list" where
  "select_lecturer_roles t cid language c =
     map (\<lambda>(cn, pcn, lecturer, is_lecture_rule, rcid, lv). (lecturer, is_lecture_rule))
       (filter (\<lambda>(cn, pcn, lecturer, is_lecture_rule, rcid, lv).
                  cn = course.course_number c \<and> pcn = course.parent_course_number c \<and>
                  rcid = cid \<and> lv = language)
          (courses_lecturers t))"

text \<open>
  A Python set is the list of its elements without repetition, in insertion order;
  \<open>list(s)\<close> is that list. Python leaves the iteration order of a set open, so the
  theorems below speak of the elements only.
\<close>

definition set_add :: "'a \<Rightarrow> 'a list \<Rightarrow> 'a list" where
  "set_add x xs = (if x \<in> set xs then xs else xs @ [x])"

text \<open>
  \<open>courses_choices_data\<close>, a \<open>defaultdict(lambda: (set(), set()))\<close>: a dict is the list of
  its items in insertion order.
\<close>

type_synonym choices_data = "(string \<times> string option list \<times> string option list) list"

text \<open>
  \<open>courses_choices_data[course.name][index].add(lecturer_name)\<close>: the lookup inserts the
  default for a missing key, then the lecturer is added to the set at \<open>index\<close>.
\<close>

definition add_lecturer :: "string \<Rightarrow> string option \<Rightarrow> bool \<Rightarrow> choices_data \<Rightarrow> choices_data" where
  "add_lecturer course_name lecturer is_lecture_rule d =
     (let (lectures, practices) = (case map_of d course_name of None \<Rightarrow> ([], []) | Some v \<Rightarrow> v)
      in AList.update course_name
           (if is_lecture_rule then (set_add lecturer lectures, practices)
            else (lectures, set_add lecturer practices)) d)"

text \<open>The inner loop, over the rows fetched for one course.\<close>

fun add_lecturers :: "string \<Rightarrow> (string option \<times> bool) list \<Rightarrow> choices_data \<Rightarrow> choices_data" where
  "add_lecturers course_name [] d = d"
| "add_lecturers course_name ((lecturer, is_lecture_rule) # rows) d =
     add_lecturers course_name rows (add_lecturer course_name lecturer is_lecture_rule d)"

text \<open>The outer loop, over the courses.\<close>

fun courses_loop :: "tables \<Rightarrow> int \<Rightarrow> string \<Rightarrow> 's course list \<Rightarrow> choices_data \<Rightarrow> choices_data" where
  "courses_loop t cid language [] d = d"
| "courses_loop t cid language (c # cs) d =
     courses_loop t cid language cs
       (add_lecturers (course.name c) (select_lecturer_roles t cid language c) d)"

text \<open>The constructor \<open>CourseChoice(name, lectures, practices)\<close>.\<close>

definition CourseChoice ::
  "string \<Rightarrow> string option list \<Rightarrow> string option list \<Rightarrow> course_choice" where
  "CourseChoice n lectures practices =
     \<lparr>course_choice.name = n, available_teachers_for_lecture = lectures,
      available_teachers_for_practice = practices\<rparr>"

text \<open>
  \<open>Database.load_courses_choices\<close>. \<open>courses or self.load_active_courses(...)\<close> takes the
  active courses when \<open>courses\<close> is \<open>None\<close> or empty. The result is the dict of the final
  comprehension, as the list of its items.
\<close>

definition load_courses_choices ::
  "database_file \<Rightarrow> string \<Rightarrow> string \<Rightarrow> 's course list option \<Rightarrow>
     py_error + (string \<times> course_choice) list" where
  "load_courses_choices db campus_name language courses_arg =
     (case db of
        Missing \<Rightarrow> Inl OperationalError
      | Present t \<Rightarrow>
          (case load_campus_id db campus_name of
             Inl e \<Rightarrow> Inl e
           | Inr cid \<Rightarrow>
               (case (case courses_arg of
                        None \<Rightarrow> load_active_courses db campus_name language
                      | Some [] \<Rightarrow> load_active_courses db campus_name language
                      | Some cs \<Rightarrow> Inr cs) of
                  Inl e \<Rightarrow> Inl e
                | Inr cs \<Rightarrow>
                    Inr (map (\<lambda>(course_name, lectures, practices).
                                (course_name, CourseChoice course_name lectures practices))
                          (courses_loop t cid language cs [])))))"


section \<open>collector/db/db.py: the activity retriever\<close>

definition lecture_types :: "Type list" where
  "lecture_types = [LECTURE, SEMINAR]"

definition practice_types :: "Type list" where
  "practice_types = [PRACTICE, LAB]"

text \<open>
  SQL's \<open>lecturer_name in (?, ..., ?)\<close>: a NULL on either side never makes it true.
\<close>

definition sql_in :: "string option \<Rightarrow> string option list \<Rightarrow> bool" where
  "sql_in x xs = (case x of None \<Rightarrow> False | Some v \<Rightarrow> Some v \<in> set xs)"

text \<open>
  \<open>text_hold_place_lectures\<close> and \<open>text_hold_place_practices\<close>: the IN clause when the list
  is not empty, \<open>lecturer_name IS NOT NULL\<close> otherwise.
\<close>

definition text_hold_place :: "string option list \<Rightarrow> string option \<Rightarrow> bool" where
  "text_hold_place teachers lecturer =
     (if teachers \<noteq> [] then sql_in lecturer teachers else lecturer \<noteq> None)"

text \<open>The \<open>SELECT * FROM activities\<close> of the loop body.\<close>

definition select_activities ::
  "tables \<Rightarrow> int \<Rightarrow> string \<Rightarrow> string \<Rightarrow> course_choice \<Rightarrow> activity_row list" where
  "select_activities t cid language course_name choice =
     filter (\<lambda>r. name r = course_name \<and> language_value r = language \<and> campus_id r = cid \<and>
                 ((activity_type r \<in> set lecture_types \<and>
                   text_hold_place (available_teachers_for_lecture choice) (lecturer_name r))
                  \<or>
                  (activity_type r \<in> set practice_types \<and>
                   text_hold_place (available_teachers_for_practice choice) (lecturer_name r))))
       (activities t)"

text \<open>\<open>Meeting.create_meeting_from_database(*data_line)\<close>.\<close>

definition create_meeting_from_database :: "meeting_row \<Rightarrow> meeting" where
  "create_meeting_from_database row =
     (case row of (i, d, s, e) \<Rightarrow> \<lparr>meeting_id = i, day = d, start_time = s, end_time = e\<rparr>)"

text \<open>
  The \<open>SELECT meetings.* FROM meetings INNER JOIN activities_meetings\<close> of one activity:
  one result row for every pair of a meeting and a link row that satisfies the join
  condition and the WHERE clause. The bound \<open>activity.activity_id\<close> may be \<open>None\<close>, which
  equals the activity id of no link.
\<close>

definition select_meetings ::
  "tables \<Rightarrow> int \<Rightarrow> string \<Rightarrow> string option \<Rightarrow> meeting_row list" where
  "select_meetings t cid language aid =
     concat (map (\<lambda>m. map (\<lambda>link. m)
                        (filter (\<lambda>(link_aid, link_mid, link_cid, link_lv).
                                   fst m = link_mid \<and> Some link_aid = aid \<and>
                                   link_cid = cid \<and> link_lv = language)
                           (activities_meetings t)))
                 (tables.meetings t))"

text \<open>
  \<open>AcademicActivity(*data_line)\<close> for the first twelve columns of a row, followed by the
  assignment \<open>activity.meetings = meetings\<close>.
\<close>

definition AcademicActivity :: "activity_row \<Rightarrow> meeting list \<Rightarrow> academic_activity" where
  "AcademicActivity r ms =
     \<lparr>name = name r, activity_type = activity_type r,
      attendance_required = attendance_required r, lecturer_name = lecturer_name r,
      course_number = course_number r, parent_course_number = parent_course_number r,
      location = location r, activity_id = activity_id r, description = description r,
      current_capacity = current_capacity r, max_capacity = max_capacity r,
      actual_course_number = actual_course_number r, meetings = ms\<rparr>"

text \<open>The activities of one item of \<open>courses_choices\<close>, each with its meetings.\<close>

definition activities_of_choice ::
  "tables \<Rightarrow> int \<Rightarrow> string \<Rightarrow> string \<Rightarrow> course_choice \<Rightarrow> academic_activity list" where
  "activities_of_choice t cid language course_name choice =
     map (\<lambda>r. AcademicActivity r
                (map create_meeting_from_database
                   (select_meetings t cid language (activity_id r))))
       (select_activities t cid language course_name choice)"

text \<open>The loop over \<open>courses_choices.items()\<close>, extending \<open>activities_result\<close>.\<close>

fun choices_loop ::
  "tables \<Rightarrow> int \<Rightarrow> string \<Rightarrow> (string \<times> course_choice) list \<Rightarrow>
     academic_activity list \<Rightarrow> academic_activity list" where
  "choices_loop t cid language [] activities_result = activities_result"
| "choices_loop t cid language ((course_name, choice) # rest) activities_result =
     choices_loop t cid language rest
       (activities_result @ activities_of_choice t cid language course_name choice)"

text \<open>
  \<open>Database.load_activities_by_courses_choices\<close>. The dict \<open>courses_choices\<close> is the list
  of its items; the keys of a dict are distinct.
\<close>

definition load_activities_by_courses_choices ::
  "database_file \<Rightarrow> (string \<times> course_choice) list \<Rightarrow> string \<Rightarrow> string \<Rightarrow>
     py_error + academic_activity list" where
  "load_activities_by_courses_choices db courses_choices campus_name language =
     (case db of
        Missing \<Rightarrow> Inr []
      | Present t \<Rightarrow>
          (case load_campus_id db campus_name of
             Inl e \<Rightarrow> Inl e
           | Inr cid \<Rightarrow> Inr (choices_loop t cid language courses_choices [])))"



section \<open>Reading the accumulated data\<close>

text \<open>The elements of the two sets stored under a key; empty when the key is absent.\<close>

definition lecture_set :: "choices_data \<Rightarrow> string \<Rightarrow> string option set" where
  "lecture_set d k = (case map_of d k of None \<Rightarrow> {} | Some (ls, ps) \<Rightarrow> set ls)"

definition practice_set :: "choices_data \<Rightarrow> string \<Rightarrow> string option set" where
  "practice_set d k = (case map_of d k of None \<Rightarrow> {} | Some (ls, ps) \<Rightarrow> set ps)"

text \<open>Every stored list represents a set: it has no repetition.\<close>

definition sets_distinct :: "choices_data \<Rightarrow> bool" where
  "sets_distinct d = (\<forall>(k, ls, ps) \<in> set d. distinct ls \<and> distinct ps)"


text \<open>
  A result read for membership only: the set of its items, each list read as a set.
\<close>

definition membership ::
  "(string \<times> course_choice) list \<Rightarrow> (string \<times> string option set \<times> string option set) set" where
  "membership result =
     (\<lambda>(k, choice). (k, set (available_teachers_for_lecture choice),
                        set (available_teachers_for_practice choice))) ` set result"


section \<open>The key of the table activities\<close>

text \<open>
  \<open>PRIMARY KEY(activity_id, campus_id, language_value)\<close> as SQLite enforces it: the rows
  that have an activity id differ pairwise in the three columns. Rows whose activity id
  is NULL are not constrained.
\<close>

definition activity_key :: "activity_row \<Rightarrow> string option \<times> int \<times> string" where
  "activity_key r = (activity_id r, campus_id r, language_value r)"

definition has_activity_id :: "'a activity_data_scheme \<Rightarrow> bool" where
  "has_activity_id a = (activity_id a \<noteq> None)"

definition activities_primary_key :: "activity_row list \<Rightarrow> bool" where
  "activities_primary_key rows = distinct (map activity_key (filter has_activity_id rows))"

section \<open>A small database\<close>

text \<open>
  Two campuses; the course Calculus I under two course numbers, Algebra, and Logic, which
  nobody teaches. Activity A1 exists on both campuses, with different meetings. Activity
  A4 has no lecturer.
\<close>

definition example_activity ::
  "string \<Rightarrow> Type \<Rightarrow> string option \<Rightarrow> int \<Rightarrow> int \<Rightarrow> string \<Rightarrow> int \<Rightarrow> string \<Rightarrow> activity_row" where
  "example_activity n ty lecturer cn pcn aid cid lv =
     \<lparr>name = n, activity_type = ty, attendance_required = True, lecturer_name = lecturer,
      course_number = cn, parent_course_number = pcn, location = ''Room 1'',
      activity_id = Some aid, description = [], current_capacity = 0, max_capacity = 30,
      actual_course_number = cn, campus_id = cid, language_value = lv\<rparr>"

definition example_tables :: tables where
  "example_tables =
     \<lparr>campuses = [(1, ''Main'', ''Rashi''), (2, ''North'', ''Tzafon'')],
      courses = [(''Calculus I'', 101, 100, ''en''), (''Calculus I'', 102, 100, ''he''),
                 (''Algebra'', 201, 200, ''en''), (''Logic'', 301, 300, ''en'')],
      courses_lecturers =
        [(101, 100, Some ''Cohen'', True, 1, ''en''),
         (101, 100, Some ''Smith'', True, 1, ''en''),
         (101, 100, Some ''Levi'', False, 1, ''en''),
         (102, 100, Some ''Cohen'', True, 1, ''en''),
         (201, 200, Some ''Smith'', True, 1, ''en''),
         (101, 100, Some ''Cohen'', True, 2, ''en'')],
      activities =
        [example_activity ''Calculus I'' LECTURE (Some ''Cohen'') 101 100 ''A1'' 1 ''en'',
         example_activity ''Calculus I'' LECTURE (Some ''Smith'') 101 100 ''A2'' 1 ''en'',
         example_activity ''Calculus I'' PRACTICE (Some ''Levi'') 101 100 ''A3'' 1 ''en'',
         example_activity ''Calculus I'' LAB None 101 100 ''A4'' 1 ''en'',
         example_activity ''Algebra'' SEMINAR (Some ''Smith'') 201 200 ''B1'' 1 ''en'',
         example_activity ''Calculus I'' LECTURE (Some ''Cohen'') 101 100 ''A1'' 2 ''en''],
      activities_meetings =
        [(''A1'', 10, 1, ''en''), (''A1'', 11, 2, ''en''), (''A3'', 12, 1, ''en'')],
      meetings =
        [(10, 1, ''08:00'', ''10:00''), (11, 2, ''09:00'', ''11:00''),
         (12, 3, ''12:00'', ''14:00'')]\<rparr>"

text \<open>
  The same database with two more lectures of Calculus I on campus Main that have no
  activity id. SQLite accepts both: a NULL in a key column never collides.
\<close>

definition null_id_tables :: tables where
  "null_id_tables =
     example_tables\<lparr>activities :=
       activities example_tables @
       [(example_activity ''Calculus I'' LECTURE (Some ''Cohen'') 101 100 [] 1 ''en'')
          \<lparr>activity_id := None\<rparr>,
        (example_activity ''Calculus I'' LECTURE (Some ''Katz'') 101 100 [] 1 ''en'')
          \<lparr>activity_id := None\<rparr>]\<rparr>"

definition example_course :: "string \<Rightarrow> int \<Rightarrow> int \<Rightarrow> nat course" where
  "example_course n cn pcn = Course_init n cn pcn None None None"


section \<open>Properties of Course\<close>

text \<open>
  Where at least one of two equal courses has no activity id, \<open>__eq__\<close> compared the
  tuple that \<open>__hash__\<close> hashes, so the hashes agree.
\<close>

lemma course_eq_hash_without_activity_id:
  "course_eq a b \<Longrightarrow>
   \<not> (truthy (course.activity_id a) \<and> truthy (course.activity_id b)) \<Longrightarrow>
   course_hash h a = course_hash h b"
  by (auto simp: course_eq_def course_hash_def)

text \<open>
  Every course that \<open>load_active_courses\<close> builds carries the language of the call as its
  activity id, because \<open>Course(*data_line)\<close> passes the fourth column in that position.
\<close>

lemma load_active_courses_activity_id:
  "load_active_courses db campus_name language = Inr cs \<Longrightarrow> c \<in> set cs \<Longrightarrow>
     course.activity_id c = Some language"
  by (auto simp: load_active_courses_def Course_init_def
      split: database_file.splits sum.splits)

lemma load_active_courses_example:
  "load_active_courses (Present example_tables) ''Main'' ''en''
   = Inr [Course_init ''Calculus I'' 101 100 (Some ''en'') None None,
          Course_init ''Algebra'' 201 200 (Some ''en'') None None :: nat course]"
  by (simp add: load_active_courses_def load_campus_id_def example_tables_def
      example_activity_def)

text \<open>
  C3. Two Course values that compare equal must have equal hashes. The two courses below
  are what \<open>Course(*data_line)\<close> builds from the rows \<open>('Algebra', 1, 10, 'en')\<close> and
  \<open>('Calculus', 2, 20, 'en')\<close> of the table courses: \<open>__eq__\<close> finds the same activity id
  and answers True, while \<open>__hash__\<close> hashes two different tuples.
\<close>

theorem course_eq_hash_failing_input:
  "course_eq (Course_init ''Algebra'' 1 10 (Some ''en'') None None :: nat course)
             (Course_init ''Calculus'' 2 20 (Some ''en'') None None)
   \<and> course_hash id (Course_init ''Algebra'' 1 10 (Some ''en'') None None :: nat course)
     \<noteq> course_hash id (Course_init ''Calculus'' 2 20 (Some ''en'') None None :: nat course)"
  by (simp add: course_eq_def course_hash_def Course_init_def truthy_def)

text \<open>
  C10. \<open>add_semesters\<close> and \<open>set_attendance_required\<close> leave name, course_number,
  parent_course_number and activity_id as they were, so the hash of the course and the
  result of comparing it with any other course, on either side, do not change.
\<close>

theorem mutations_keep_identity:
  "(\<forall>c'. add_semesters c arg = Inr c' \<longrightarrow>
      course.name c' = course.name c \<and>
      course.course_number c' = course.course_number c \<and>
      course.parent_course_number c' = course.parent_course_number c \<and>
      course.activity_id c' = course.activity_id c \<and>
      course_hash h c' = course_hash h c \<and>
      (\<forall>d. course_eq c' d = course_eq c d \<and> course_eq d c' = course_eq d c))
   \<and> course.name (set_attendance_required c ty required) = course.name c
   \<and> course.course_number (set_attendance_required c ty required) = course.course_number c
   \<and> course.parent_course_number (set_attendance_required c ty required)
       = course.parent_course_number c
   \<and> course.activity_id (set_attendance_required c ty required) = course.activity_id c
   \<and> course_hash h (set_attendance_required c ty required) = course_hash h c
   \<and> (\<forall>d. course_eq (set_attendance_required c ty required) d = course_eq c d
          \<and> course_eq d (set_attendance_required c ty required) = course_eq d c)"
  by (auto simp: add_semesters_def set_attendance_required_def course_eq_def course_hash_def
      Let_def split: semesters_value.splits)

theorem mutations_keep_identity_witness:
  "add_semesters (Course_init ''Algebra'' 1 10 (Some ''a1'') None None :: nat course) (One 2)
     = Inr ((Course_init ''Algebra'' 1 10 (Some ''a1'') None None)\<lparr>semesters := SemSet {2}\<rparr>)
   \<and> course.name ((Course_init ''Algebra'' 1 10 (Some ''a1'') None None :: nat course)
        \<lparr>semesters := SemSet {2}\<rparr>) = ''Algebra''
   \<and> course_hash id ((Course_init ''Algebra'' 1 10 (Some ''a1'') None None :: nat course)
        \<lparr>semesters := SemSet {2}\<rparr>) = (''Algebra'', 1, 10)"
proof -
  have run:
    "add_semesters (Course_init ''Algebra'' 1 10 (Some ''a1'') None None :: nat course) (One 2)
       = Inr ((Course_init ''Algebra'' 1 10 (Some ''a1'') None None)\<lparr>semesters := SemSet {2}\<rparr>)"
    by (simp add: add_semesters_def Course_init_def)
  from mutations_keep_identity
         [of "Course_init ''Algebra'' 1 10 (Some ''a1'') None None :: nat course"
             "One 2" id LECTURE True] run
  show ?thesis
    by (simp add: Course_init_def course_hash_def)
qed


section \<open>The choice index builder: what the loops accumulate\<close>

lemma set_set_add: "set (set_add x xs) = insert x (set xs)"
  by (auto simp: set_add_def)

lemma distinct_set_add: "distinct xs \<Longrightarrow> distinct (set_add x xs)"
  by (simp add: set_add_def)

lemma add_lecturer_update:
  "add_lecturer n l r d =
     AList.update n (case map_of d n of
                   None \<Rightarrow> (if r then ([l], []) else ([], [l]))
                 | Some (ls, ps) \<Rightarrow> (if r then (set_add l ls, ps) else (ls, set_add l ps))) d"
  by (simp add: add_lecturer_def set_add_def split: option.splits prod.splits)

lemma map_of_add_lecturer:
  "map_of (add_lecturer n l r d) k =
     (if k = n
      then Some (case map_of d n of
                   None \<Rightarrow> (if r then ([l], []) else ([], [l]))
                 | Some (ls, ps) \<Rightarrow> (if r then (set_add l ls, ps) else (ls, set_add l ps)))
      else map_of d k)"
  by (simp add: add_lecturer_update update_conv')

lemma lecture_set_add_lecturer:
  "lecture_set (add_lecturer n l r d) k = lecture_set d k \<union> (if k = n \<and> r then {l} else {})"
  by (auto simp: lecture_set_def map_of_add_lecturer set_set_add split: option.splits)

lemma practice_set_add_lecturer:
  "practice_set (add_lecturer n l r d) k = practice_set d k \<union> (if k = n \<and> \<not> r then {l} else {})"
  by (auto simp: practice_set_def map_of_add_lecturer set_set_add split: option.splits)

lemma keys_add_lecturer: "fst ` set (add_lecturer n l r d) = insert n (fst ` set d)"
  by (simp add: add_lecturer_update dom_update)

lemma distinct_keys_add_lecturer:
  "distinct (map fst d) \<Longrightarrow> distinct (map fst (add_lecturer n l r d))"
  by (simp add: add_lecturer_update distinct_update)

lemma sets_distinct_update:
  "sets_distinct d \<Longrightarrow> distinct (fst v) \<Longrightarrow> distinct (snd v) \<Longrightarrow>
   sets_distinct (AList.update n v d)"
  by (induction d) (auto simp: sets_distinct_def split: prod.splits)

lemma sets_distinct_add_lecturer:
  assumes "sets_distinct d"
  shows "sets_distinct (add_lecturer n l r d)"
proof -
  have look: "map_of d n = Some (ls, ps) \<Longrightarrow> distinct ls \<and> distinct ps" for ls ps
    using assms map_of_SomeD [of d n "(ls, ps)"] by (auto simp: sets_distinct_def)
  show ?thesis
    unfolding add_lecturer_update
    using look assms
    by (intro sets_distinct_update) (auto split: option.splits simp: distinct_set_add)
qed

lemma lecture_set_add_lecturers:
  "lecture_set (add_lecturers n rows d) k =
     lecture_set d k \<union> (if k = n then {l. (l, True) \<in> set rows} else {})"
  by (induction n rows d rule: add_lecturers.induct) (auto simp: lecture_set_add_lecturer)

lemma practice_set_add_lecturers:
  "practice_set (add_lecturers n rows d) k =
     practice_set d k \<union> (if k = n then {l. (l, False) \<in> set rows} else {})"
  by (induction n rows d rule: add_lecturers.induct) (auto simp: practice_set_add_lecturer)

lemma keys_add_lecturers:
  "fst ` set (add_lecturers n rows d) = fst ` set d \<union> (if rows = [] then {} else {n})"
  by (induction n rows d rule: add_lecturers.induct) (auto simp: keys_add_lecturer)

lemma distinct_keys_add_lecturers:
  "distinct (map fst d) \<Longrightarrow> distinct (map fst (add_lecturers n rows d))"
  by (induction n rows d rule: add_lecturers.induct) (auto simp: distinct_keys_add_lecturer)

lemma sets_distinct_add_lecturers:
  "sets_distinct d \<Longrightarrow> sets_distinct (add_lecturers n rows d)"
  by (induction n rows d rule: add_lecturers.induct) (auto simp: sets_distinct_add_lecturer)

lemma lecture_set_courses_loop:
  "lecture_set (courses_loop t cid lang cs d) k =
     lecture_set d k \<union>
     {l. \<exists>c \<in> set cs. course.name c = k \<and> (l, True) \<in> set (select_lecturer_roles t cid lang c)}"
  by (induction cs arbitrary: d) (auto simp: lecture_set_add_lecturers)

lemma practice_set_courses_loop:
  "practice_set (courses_loop t cid lang cs d) k =
     practice_set d k \<union>
     {l. \<exists>c \<in> set cs. course.name c = k \<and> (l, False) \<in> set (select_lecturer_roles t cid lang c)}"
  by (induction cs arbitrary: d) (auto simp: practice_set_add_lecturers)

lemma keys_courses_loop:
  "fst ` set (courses_loop t cid lang cs d) =
     fst ` set d \<union> {course.name c | c. c \<in> set cs \<and> select_lecturer_roles t cid lang c \<noteq> []}"
  by (induction cs arbitrary: d) (auto simp: keys_add_lecturers)

lemma distinct_keys_courses_loop:
  "distinct (map fst d) \<Longrightarrow> distinct (map fst (courses_loop t cid lang cs d))"
  by (induction cs arbitrary: d) (auto simp: distinct_keys_add_lecturers)

lemma sets_distinct_courses_loop:
  "sets_distinct d \<Longrightarrow> sets_distinct (courses_loop t cid lang cs d)"
  by (induction cs arbitrary: d) (auto simp: sets_distinct_add_lecturers)


section \<open>The choice index builder: keys, roles and order\<close>

lemma load_courses_choices_Present:
  assumes "load_campus_id (Present t) campus_name = Inr cid" "cs \<noteq> []"
  shows "load_courses_choices (Present t) campus_name language (Some cs) =
           Inr (map (\<lambda>(course_name, lectures, practices).
                       (course_name, CourseChoice course_name lectures practices))
                  (courses_loop t cid language cs []))"
  using assms by (cases cs) (simp_all add: load_courses_choices_def)

lemma keys_items: 
  "map fst (map (\<lambda>(course_name, lectures, practices).
                       (course_name, CourseChoice course_name lectures practices)) d) = map fst d"
  by (induction d) auto

lemma in_items:
  "(k, choice) \<in> set (map (\<lambda>(course_name, lectures, practices).
                       (course_name, CourseChoice course_name lectures practices)) d)
   \<longleftrightarrow> (\<exists>ls ps. (k, ls, ps) \<in> set d \<and> choice = CourseChoice k ls ps)"
  by (induction d) auto

lemma lecture_set_member:
  "distinct (map fst d) \<Longrightarrow> (k, ls, ps) \<in> set d \<Longrightarrow> lecture_set d k = set ls"
  by (simp add: lecture_set_def)

lemma practice_set_member:
  "distinct (map fst d) \<Longrightarrow> (k, ls, ps) \<in> set d \<Longrightarrow> practice_set d k = set ps"
  by (simp add: practice_set_def)

text \<open>
  C1, as the code has it. For a non-empty list of courses and a campus that resolves, the
  call returns, no key occurs twice, and the keys are the names of exactly those input
  courses whose query returned at least one row: the entry of the defaultdict is created
  by the first row, so a course without rows leaves no key (unless another course of the
  same name has rows).
\<close>

theorem builder_keys:
  assumes "load_campus_id (Present t) campus_name = Inr cid" "cs \<noteq> []"
  shows "\<exists>result. load_courses_choices (Present t) campus_name language (Some cs) = Inr result \<and>
           distinct (map fst result) \<and>
           set (map fst result) =
             {course.name c | c. c \<in> set cs \<and> select_lecturer_roles t cid language c \<noteq> []}"
proof -
  let ?d = "courses_loop t cid language cs []"
  let ?result = "map (\<lambda>(course_name, lectures, practices).
                       (course_name, CourseChoice course_name lectures practices)) ?d"
  have run: "load_courses_choices (Present t) campus_name language (Some cs) = Inr ?result"
    using assms by (rule load_courses_choices_Present)
  have keys: "map fst ?result = map fst ?d"
    by (rule keys_items)
  have "distinct (map fst ?d)"
    by (simp add: distinct_keys_courses_loop)
  moreover have "set (map fst ?d) =
      {course.name c | c. c \<in> set cs \<and> select_lecturer_roles t cid language c \<noteq> []}"
    using keys_courses_loop [of t cid language cs "[]"] by simp
  ultimately have "distinct (map fst ?result) \<and> set (map fst ?result) =
      {course.name c | c. c \<in> set cs \<and> select_lecturer_roles t cid language c \<noteq> []}"
    unfolding keys by (rule conjI)
  with run show ?thesis
    by (intro exI [of _ ?result] conjI) (rule run, simp_all only:)
qed

theorem builder_keys_witness:
  "load_campus_id (Present example_tables) ''Main'' = Inr 1
   \<and> [example_course ''Calculus I'' 101 100, example_course ''Logic'' 301 300] \<noteq> []
   \<and> (\<exists>result. load_courses_choices (Present example_tables) ''Main'' ''en''
          (Some [example_course ''Calculus I'' 101 100, example_course ''Logic'' 301 300])
            = Inr result \<and>
          distinct (map fst result) \<and>
          set (map fst result) =
            {course.name c | c.
               c \<in> set [example_course ''Calculus I'' 101 100, example_course ''Logic'' 301 300] \<and>
               select_lecturer_roles example_tables 1 ''en'' c \<noteq> []})"
proof -
  have h1: "load_campus_id (Present example_tables) ''Main'' = Inr 1"
    by (simp add: load_campus_id_def example_tables_def)
  have h2: "[example_course ''Calculus I'' 101 100, example_course ''Logic'' 301 300] \<noteq> []"
    by simp
  from builder_keys [OF h1 h2, of "''en''"] h1 h2 show ?thesis
    by (intro conjI)
qed

text \<open>
  C7. For a non-empty list of courses and a campus that resolves, the call returns, and
  every fetched pair puts its lecturer into the lecture list of the course's name when the
  flag is true and into the practice list when it is false. Conversely the lecture list
  under a key holds exactly the lecturers of the true pairs of the courses of that name,
  the practice list those of the false pairs, and neither list repeats a lecturer.
\<close>

theorem builder_sets:
  assumes "load_campus_id (Present t) campus_name = Inr cid" "cs \<noteq> []"
  shows "\<exists>result. load_courses_choices (Present t) campus_name language (Some cs) = Inr result \<and>
           (\<forall>c \<in> set cs. \<forall>(l, flag) \<in> set (select_lecturer_roles t cid language c).
              \<exists>choice. (course.name c, choice) \<in> set result \<and>
                 l \<in> set (if flag then available_teachers_for_lecture choice
                          else available_teachers_for_practice choice)) \<and>
           (\<forall>(k, choice) \<in> set result.
              set (available_teachers_for_lecture choice) =
                {l. \<exists>c \<in> set cs. course.name c = k \<and>
                      (l, True) \<in> set (select_lecturer_roles t cid language c)} \<and>
              set (available_teachers_for_practice choice) =
                {l. \<exists>c \<in> set cs. course.name c = k \<and>
                      (l, False) \<in> set (select_lecturer_roles t cid language c)} \<and>
              distinct (available_teachers_for_lecture choice) \<and>
              distinct (available_teachers_for_practice choice))"
proof -
  let ?d = "courses_loop t cid language cs []"
  let ?result = "map (\<lambda>(course_name, lectures, practices).
                       (course_name, CourseChoice course_name lectures practices)) ?d"
  have run: "load_courses_choices (Present t) campus_name language (Some cs) = Inr ?result"
    using assms by (rule load_courses_choices_Present)
  have dk: "distinct (map fst ?d)"
    by (simp add: distinct_keys_courses_loop)
  have sd: "sets_distinct ?d"
    by (rule sets_distinct_courses_loop) (simp add: sets_distinct_def)
  have entry: "set ls = {l. \<exists>c \<in> set cs. course.name c = k \<and>
                      (l, True) \<in> set (select_lecturer_roles t cid language c)}
             \<and> set ps = {l. \<exists>c \<in> set cs. course.name c = k \<and>
                      (l, False) \<in> set (select_lecturer_roles t cid language c)}
             \<and> distinct ls \<and> distinct ps"
    if "(k, ls, ps) \<in> set ?d" for k ls ps
  proof -
    have "lecture_set ?d k = set ls" "practice_set ?d k = set ps"
      using dk that by (simp_all add: lecture_set_member practice_set_member)
    moreover have "lecture_set ?d k = {l. \<exists>c \<in> set cs. course.name c = k \<and>
                      (l, True) \<in> set (select_lecturer_roles t cid language c)}"
      unfolding lecture_set_courses_loop by (simp add: lecture_set_def)
    moreover have "practice_set ?d k = {l. \<exists>c \<in> set cs. course.name c = k \<and>
                      (l, False) \<in> set (select_lecturer_roles t cid language c)}"
      unfolding practice_set_courses_loop by (simp add: practice_set_def)
    moreover have "distinct ls \<and> distinct ps"
      using sd that by (auto simp: sets_distinct_def)
    ultimately show ?thesis by simp
  qed
  have second: "\<forall>(k, choice) \<in> set ?result.
              set (available_teachers_for_lecture choice) =
                {l. \<exists>c \<in> set cs. course.name c = k \<and>
                      (l, True) \<in> set (select_lecturer_roles t cid language c)} \<and>
              set (available_teachers_for_practice choice) =
                {l. \<exists>c \<in> set cs. course.name c = k \<and>
                      (l, False) \<in> set (select_lecturer_roles t cid language c)} \<and>
              distinct (available_teachers_for_lecture choice) \<and>
              distinct (available_teachers_for_practice choice)"
  proof (clarify)
    fix k choice
    assume "(k, choice) \<in> set ?result"
    then obtain ls ps where m: "(k, ls, ps) \<in> set ?d" and c: "choice = CourseChoice k ls ps"
      unfolding in_items by blast
    from entry [OF m] c
    show "set (available_teachers_for_lecture choice) =
                {l. \<exists>c \<in> set cs. course.name c = k \<and>
                      (l, True) \<in> set (select_lecturer_roles t cid language c)} \<and>
              set (available_teachers_for_practice choice) =
                {l. \<exists>c \<in> set cs. course.name c = k \<and>
                      (l, False) \<in> set (select_lecturer_roles t cid language c)} \<and>
              distinct (available_teachers_for_lecture choice) \<and>
              distinct (available_teachers_for_practice choice)"
      by (simp add: CourseChoice_def)
  qed
  have first: "\<forall>c \<in> set cs. \<forall>(l, flag) \<in> set (select_lecturer_roles t cid language c).
              \<exists>choice. (course.name c, choice) \<in> set ?result \<and>
                 l \<in> set (if flag then available_teachers_for_lecture choice
                          else available_teachers_for_practice choice)"
  proof (clarify)
    fix c l flag
    assume c: "c \<in> set cs" and row: "(l, flag) \<in> set (select_lecturer_roles t cid language c)"
    then have "course.name c \<in> fst ` set ?d"
      unfolding keys_courses_loop by auto
    then obtain ls ps where m: "(course.name c, ls, ps) \<in> set ?d"
      by auto
    then have in_result: "(course.name c, CourseChoice (course.name c) ls ps) \<in> set ?result"
      unfolding in_items by blast
    from entry [OF m] c row have "l \<in> (if flag then set ls else set ps)"
      by (cases flag) auto
    then have "l \<in> set (if flag then available_teachers_for_lecture (CourseChoice (course.name c) ls ps)
                          else available_teachers_for_practice (CourseChoice (course.name c) ls ps))"
      by (cases flag) (simp_all add: CourseChoice_def)
    with in_result
    show "\<exists>choice. (course.name c, choice) \<in> set ?result \<and>
                 l \<in> set (if flag then available_teachers_for_lecture choice
                          else available_teachers_for_practice choice)"
      by blast
  qed
  from run first second show ?thesis by blast
qed

theorem builder_sets_witness:
  "load_campus_id (Present example_tables) ''Main'' = Inr 1
   \<and> [example_course ''Calculus I'' 101 100, example_course ''Calculus I'' 102 100] \<noteq> []
   \<and> (\<exists>result. load_courses_choices (Present example_tables) ''Main'' ''en''
          (Some [example_course ''Calculus I'' 101 100, example_course ''Calculus I'' 102 100])
            = Inr result \<and>
          (\<forall>(k, choice) \<in> set result.
              distinct (available_teachers_for_lecture choice) \<and>
              distinct (available_teachers_for_practice choice)))"
proof -
  have h1: "load_campus_id (Present example_tables) ''Main'' = Inr 1"
    by (simp add: load_campus_id_def example_tables_def)
  have h2: "[example_course ''Calculus I'' 101 100, example_course ''Calculus I'' 102 100] \<noteq> []"
    by simp
  from builder_sets [OF h1 h2, of "''en''"] h1 h2 show ?thesis
    by fast
qed

lemma membership_items:
  assumes "distinct (map fst d)"
  shows "membership (map (\<lambda>(course_name, lectures, practices).
                       (course_name, CourseChoice course_name lectures practices)) d)
         = (\<lambda>k. (k, lecture_set d k, practice_set d k)) ` fst ` set d"
proof -
  have "membership (map (\<lambda>(course_name, lectures, practices).
                       (course_name, CourseChoice course_name lectures practices)) d)
        = (\<lambda>(k, ls, ps). (k, set ls, set ps)) ` set d"
    by (force simp: membership_def CourseChoice_def image_iff split: prod.splits)
  also have "\<dots> = (\<lambda>(k, ls, ps). (k, lecture_set d k, practice_set d k)) ` set d"
    using assms by (intro image_cong) (auto simp: lecture_set_member practice_set_member)
  also have "\<dots> = (\<lambda>k. (k, lecture_set d k, practice_set d k)) ` fst ` set d"
    by (force simp: image_iff)
  finally show ?thesis .
qed

lemma membership_courses_loop:
  "membership (map (\<lambda>(course_name, lectures, practices).
                       (course_name, CourseChoice course_name lectures practices))
                 (courses_loop t cid language cs []))
   = (\<lambda>k. (k, {l. \<exists>c \<in> set cs. course.name c = k \<and>
                      (l, True) \<in> set (select_lecturer_roles t cid language c)},
               {l. \<exists>c \<in> set cs. course.name c = k \<and>
                      (l, False) \<in> set (select_lecturer_roles t cid language c)}))
     ` {course.name c | c. c \<in> set cs \<and> select_lecturer_roles t cid language c \<noteq> []}"
proof -
  have e1: "lecture_set (courses_loop t cid language cs []) k =
      {l. \<exists>c \<in> set cs. course.name c = k \<and>
                      (l, True) \<in> set (select_lecturer_roles t cid language c)}" for k
    unfolding lecture_set_courses_loop by (simp add: lecture_set_def)
  have e2: "practice_set (courses_loop t cid language cs []) k =
      {l. \<exists>c \<in> set cs. course.name c = k \<and>
                      (l, False) \<in> set (select_lecturer_roles t cid language c)}" for k
    unfolding practice_set_courses_loop by (simp add: practice_set_def)
  have e3: "fst ` set (courses_loop t cid language cs []) =
      {course.name c | c. c \<in> set cs \<and> select_lecturer_roles t cid language c \<noteq> []}"
    unfolding keys_courses_loop by simp
  have "distinct (map fst (courses_loop t cid language cs []))"
    by (simp add: distinct_keys_courses_loop)
  from membership_items [OF this] show ?thesis
    unfolding e1 e2 e3 .
qed

text \<open>
  C9. Two calls on the same database whose course lists are permutations of each other
  (the same list in particular) both fail with the same error or both return, and then
  the results have the same keys and, under each key, lecture and practice lists with the
  same elements. Courses that share a name are merged under it.
\<close>

theorem builder_order_independent:
  assumes "mset cs = mset cs'"
  shows "map_sum id membership (load_courses_choices db campus_name language (Some cs))
       = map_sum id membership (load_courses_choices db campus_name language (Some cs'))"
proof (cases db)
  case Missing
  then show ?thesis by (simp add: load_courses_choices_def)
next
  case (Present t)
  show ?thesis
  proof (cases "load_campus_id (Present t) campus_name")
    case (Inl e)
    then show ?thesis using Present by (simp add: load_courses_choices_def)
  next
    case (Inr cid)
    have sets: "set cs = set cs'"
      using assms by (rule mset_eq_setD)
    show ?thesis
    proof (cases "cs = []")
      case True
      with assms have "cs' = []" by simp
      with True show ?thesis by simp
    next
      case False
      with sets have ne: "cs' \<noteq> []" by auto
      show ?thesis
        unfolding Present load_courses_choices_Present [OF Inr False]
          load_courses_choices_Present [OF Inr ne]
        by (simp add: membership_courses_loop sets)
    qed
  qed
qed

theorem builder_order_independent_witness:
  "mset [example_course ''Calculus I'' 101 100, example_course ''Logic'' 301 300,
         example_course ''Calculus I'' 102 100]
     = mset [example_course ''Calculus I'' 102 100, example_course ''Calculus I'' 101 100,
             example_course ''Logic'' 301 300]
   \<and> map_sum id membership (load_courses_choices (Present example_tables) ''Main'' ''en''
        (Some [example_course ''Calculus I'' 101 100, example_course ''Logic'' 301 300,
               example_course ''Calculus I'' 102 100]))
     = map_sum id membership (load_courses_choices (Present example_tables) ''Main'' ''en''
        (Some [example_course ''Calculus I'' 102 100, example_course ''Calculus I'' 101 100,
               example_course ''Logic'' 301 300]))"
proof -
  have h: "mset [example_course ''Calculus I'' 101 100, example_course ''Logic'' 301 300,
         example_course ''Calculus I'' 102 100]
     = mset [example_course ''Calculus I'' 102 100, example_course ''Calculus I'' 101 100,
             example_course ''Logic'' 301 300]"
    by (simp add: add.commute add.left_commute)
  from builder_order_independent [OF h, of "Present example_tables" "''Main''" "''en''"] h
  show ?thesis by (rule_tac conjI)
qed

text \<open>
  Against C1 as stated: Logic has no row in courses_lecturers, and the result for the
  one-course input has no key at all.
\<close>

theorem builder_omits_course_without_lecturers:
  "load_courses_choices (Present example_tables) ''Main'' ''en''
     (Some [example_course ''Logic'' 301 300]) = Inr []"
  by (simp add: load_courses_choices_def load_campus_id_def example_tables_def
      example_course_def Course_init_def select_lecturer_roles_def)


section \<open>Resolving the campus\<close>

lemma load_campus_id_unknown:
  assumes "\<forall>(cid, english_name, hebrew_name) \<in> set (campuses t).
             english_name \<noteq> campus_name \<and> hebrew_name \<noteq> campus_name"
  shows "load_campus_id (Present t) campus_name = Inl TypeError"
proof -
  have "filter (\<lambda>(cid, english_name, hebrew_name).
                  english_name = campus_name \<or> hebrew_name = campus_name) (campuses t) = []"
    using assms by (auto simp: filter_empty_conv)
  then show ?thesis by (simp add: load_campus_id_def)
qed

text \<open>
  C2, as the code has it. When no row of campuses carries the campus name, neither as
  english_name nor as hebrew_name, \<open>load_campus_id\<close> raises TypeError (the subscript of
  the \<open>None\<close> that \<open>fetchone\<close> returned; the code has no NotFound error), and
  \<open>load_courses_choices\<close> and \<open>load_activities_by_courses_choices\<close> end with the same
  error and return nothing. When there is no database file,
  \<open>load_activities_by_courses_choices\<close> returns the empty list before it looks at the
  campus.
\<close>

theorem unknown_campus_is_fatal:
  "((\<forall>(cid, english_name, hebrew_name) \<in> set (campuses t).
        english_name \<noteq> campus_name \<and> hebrew_name \<noteq> campus_name) \<longrightarrow>
      load_campus_id (Present t) campus_name = Inl TypeError \<and>
      load_courses_choices (Present t) campus_name language courses_arg = Inl TypeError \<and>
      load_activities_by_courses_choices (Present t) courses_choices campus_name language
        = Inl TypeError)
   \<and> load_activities_by_courses_choices Missing courses_choices campus_name language = Inr []"
  by (auto simp: load_courses_choices_def load_activities_by_courses_choices_def
      dest!: load_campus_id_unknown [of t campus_name])

theorem unknown_campus_is_fatal_witness:
  "load_campus_id (Present example_tables) ''Nowhere'' = Inl TypeError
   \<and> load_courses_choices (Present example_tables) ''Nowhere'' ''en''
        (Some [example_course ''Calculus I'' 101 100]) = Inl TypeError
   \<and> load_activities_by_courses_choices (Present example_tables)
        [(''Calculus I'', CourseChoice ''Calculus I'' [] [])] ''Nowhere'' ''en'' = Inl TypeError"
proof -
  have h: "\<forall>(cid, english_name, hebrew_name) \<in> set (campuses example_tables).
       english_name \<noteq> ''Nowhere'' \<and> hebrew_name \<noteq> ''Nowhere''"
    by (simp add: example_tables_def)
  from unknown_campus_is_fatal [of example_tables "''Nowhere''" "''en''"
         "Some [example_course ''Calculus I'' 101 100]"
         "[(''Calculus I'', CourseChoice ''Calculus I'' [] [])]"] h
  show ?thesis by blast
qed

text \<open>
  Against C2 as stated: the error for an unknown campus is TypeError, and without a
  database file the retrieval for an unknown campus does not fail.
\<close>

theorem unknown_campus_counterexample:
  "load_campus_id (Present example_tables) ''Nowhere'' = Inl TypeError
   \<and> load_activities_by_courses_choices Missing
        [(''Calculus I'', CourseChoice ''Calculus I'' [] [])] ''Nowhere'' ''en'' = Inr []"
  by (simp add: load_campus_id_def load_activities_by_courses_choices_def example_tables_def)

section \<open>The activity retriever: the result as a list\<close>

lemma choices_loop_concat:
  "choices_loop t cid language ccs acc =
     acc @ concat (map (\<lambda>(course_name, choice).
                          activities_of_choice t cid language course_name choice) ccs)"
  by (induction ccs arbitrary: acc) auto

lemma load_activities_Present:
  assumes "load_campus_id (Present t) campus_name = Inr cid"
  shows "load_activities_by_courses_choices (Present t) ccs campus_name language =
           Inr (concat (map (\<lambda>(course_name, choice).
                          activities_of_choice t cid language course_name choice) ccs))"
  using assms by (simp add: load_activities_by_courses_choices_def choices_loop_concat)

lemma in_result_iff:
  "a \<in> set (concat (map (\<lambda>(course_name, choice).
                          activities_of_choice t cid language course_name choice) ccs))
   \<longleftrightarrow> (\<exists>k choice r. (k, choice) \<in> set ccs \<and> r \<in> set (select_activities t cid language k choice)
          \<and> a = AcademicActivity r (map create_meeting_from_database
                   (select_meetings t cid language (activity_id r))))"
  by (auto simp: activities_of_choice_def)

lemma AcademicActivity_fields [simp]:
  "name (AcademicActivity r ms) = name r"
  "activity_type (AcademicActivity r ms) = activity_type r"
  "lecturer_name (AcademicActivity r ms) = lecturer_name r"
  "activity_id (AcademicActivity r ms) = activity_id r"
  "meetings (AcademicActivity r ms) = ms"
  by (simp_all add: AcademicActivity_def)



section \<open>The activity retriever: meetings\<close>




section \<open>The activity retriever: no activity twice\<close>

lemma select_activities_scope:
  "r \<in> set (select_activities t cid language k choice) \<Longrightarrow>
     r \<in> set (activities t) \<and> name r = k \<and> campus_id r = cid \<and> language_value r = language"
  by (auto simp: select_activities_def)

lemma primary_key_inj:
  assumes "activities_primary_key acts"
    and "r \<in> set acts" "r' \<in> set acts" "has_activity_id r"
    and "campus_id r = campus_id r'" "language_value r = language_value r'"
    and "activity_id r = activity_id r'"
  shows "r = r'"
proof -
  from assms(1) have "inj_on activity_key (set (filter has_activity_id acts))"
    by (simp add: activities_primary_key_def distinct_map)
  moreover have "r \<in> set (filter has_activity_id acts)" "r' \<in> set (filter has_activity_id acts)"
    using assms(2-4,7) by (simp_all add: has_activity_id_def)
  moreover have "activity_key r = activity_key r'"
    using assms(5-7) by (simp add: activity_key_def)
  ultimately show ?thesis
    by (blast dest: inj_onD)
qed

lemma select_activities_same_id:
  assumes pk: "activities_primary_key (activities t)"
    and r: "r \<in> set (select_activities t cid language k choice)"
    and r': "r' \<in> set (select_activities t cid language k' choice')"
    and some: "has_activity_id r"
    and same: "activity_id r = activity_id r'"
  shows "r = r' \<and> k = k'"
proof -
  note s = select_activities_scope [OF r] and s' = select_activities_scope [OF r']
  have "campus_id r = campus_id r'" "language_value r = language_value r'"
    using s s' by simp_all
  with pk s s' some same have eq: "r = r'"
    by (intro primary_key_inj [of "activities t"]) simp_all
  moreover have "k = k'"
    using s s' unfolding eq by simp
  ultimately show ?thesis ..
qed

lemma given_ids_filter:
  "filter (\<lambda>i. i \<noteq> None) (map activity_id xs) = map activity_id (filter has_activity_id xs)"
  by (induction xs) (simp_all add: has_activity_id_def)

lemma distinct_ids_select:
  assumes pk: "activities_primary_key (activities t)"
  shows "distinct (map activity_id
           (filter has_activity_id (select_activities t cid language k choice)))"
proof -
  have "distinct (filter has_activity_id (activities t))"
    using pk by (simp add: activities_primary_key_def distinct_map)
  then have "distinct (filter (\<lambda>r. name r = k \<and> language_value r = language \<and> campus_id r = cid \<and>
                 ((activity_type r \<in> set lecture_types \<and>
                   text_hold_place (available_teachers_for_lecture choice) (lecturer_name r))
                  \<or>
                  (activity_type r \<in> set practice_types \<and>
                   text_hold_place (available_teachers_for_practice choice) (lecturer_name r))))
            (filter has_activity_id (activities t)))"
    by (rule distinct_filter)
  then have d: "distinct (filter has_activity_id (select_activities t cid language k choice))"
    by (simp add: select_activities_def conj_commute)
  have "inj_on activity_id
          (set (filter has_activity_id (select_activities t cid language k choice)))"
  proof (rule inj_onI)
    fix r r'
    assume "r \<in> set (filter has_activity_id (select_activities t cid language k choice))"
      "r' \<in> set (filter has_activity_id (select_activities t cid language k choice))"
      "activity_id r = activity_id r'"
    then show "r = r'"
      using select_activities_same_id [OF pk, of r cid language k choice r' k choice]
      by simp
  qed
  with d show ?thesis by (simp add: distinct_map)
qed

lemma distinct_ids_concat:
  assumes pk: "activities_primary_key (activities t)"
    and keys: "distinct (map fst ccs)"
  shows "distinct (concat (map (\<lambda>(k, choice).
            map activity_id
              (filter has_activity_id (select_activities t cid language k choice))) ccs))"
  using keys
proof (induction ccs)
  case Nil
  then show ?case by simp
next
  case (Cons p ccs)
  obtain k choice where p: "p = (k, choice)" by (cases p)
  have fresh: "k \<notin> fst ` set ccs"
    using Cons.prems p by simp
  have disj: "set (map activity_id
                 (filter has_activity_id (select_activities t cid language k choice))) \<inter>
        set (concat (map (\<lambda>(k, choice).
            map activity_id
              (filter has_activity_id (select_activities t cid language k choice))) ccs)) = {}"
  proof (rule ccontr)
    assume "\<not> ?thesis"
    then obtain r r' k' choice' where
      r: "r \<in> set (select_activities t cid language k choice)" and
      some: "has_activity_id r" and
      r': "r' \<in> set (select_activities t cid language k' choice')" and
      k': "(k', choice') \<in> set ccs" and same: "activity_id r = activity_id r'"
      by auto
    from select_activities_same_id [OF pk r r' some same] have "k = k'" ..
    with k' have "k \<in> fst ` set ccs"
      by (metis fst_conv image_eqI)
    with fresh show False ..
  qed
  have tail: "distinct (concat (map (\<lambda>(k, choice).
            map activity_id
              (filter has_activity_id (select_activities t cid language k choice))) ccs))"
    using Cons by simp
  show ?case
    unfolding p using tail disj distinct_ids_select [OF pk, of cid language k choice]
    by simp
qed

text \<open>
  C6, as the code has it. When the campus resolves, the keys of \<open>courses_choices\<close> are
  distinct (it is a dict) and the table activities satisfies its primary key, the call
  returns and no activity id occurs on two returned activities. All of them belong to
  the one campus and language of the call, so no two that have an activity id agree on
  (activity_id, campus, language).
\<close>

theorem no_duplicate_activities:
  assumes "load_campus_id (Present t) campus_name = Inr cid"
    and "distinct (map fst ccs)"
    and "activities_primary_key (activities t)"
  shows "\<exists>result. load_activities_by_courses_choices (Present t) ccs campus_name language
                    = Inr result \<and>
           distinct (filter (\<lambda>i. i \<noteq> None) (map activity_id result))"
proof -
  let ?result = "concat (map (\<lambda>(course_name, choice).
                          activities_of_choice t cid language course_name choice) ccs)"
  have run: "load_activities_by_courses_choices (Present t) ccs campus_name language = Inr ?result"
    using assms(1) by (rule load_activities_Present)
  have "map activity_id (filter has_activity_id ?result) =
          concat (map (\<lambda>(k, choice).
            map activity_id
              (filter has_activity_id (select_activities t cid language k choice))) ccs)"
    by (induction ccs)
      (auto simp: activities_of_choice_def filter_map o_def has_activity_id_def)
  then have "distinct (map activity_id (filter has_activity_id ?result))"
    using distinct_ids_concat [OF assms(3) assms(2)] by simp
  then have "distinct (filter (\<lambda>i. i \<noteq> None) (map activity_id ?result))"
    unfolding given_ids_filter .
  with run show ?thesis by blast
qed

theorem no_duplicate_activities_witness:
  "load_campus_id (Present null_id_tables) ''Main'' = Inr 1
   \<and> distinct (map fst [(''Calculus I'', CourseChoice ''Calculus I'' [Some ''Cohen''] []),
                         (''Algebra'', CourseChoice ''Algebra'' [] [])])
   \<and> activities_primary_key (activities null_id_tables)
   \<and> (\<exists>result. load_activities_by_courses_choices (Present null_id_tables)
          [(''Calculus I'', CourseChoice ''Calculus I'' [Some ''Cohen''] []),
           (''Algebra'', CourseChoice ''Algebra'' [] [])] ''Main'' ''en'' = Inr result \<and>
          distinct (filter (\<lambda>i. i \<noteq> None) (map activity_id result)))"
proof -
  have h1: "load_campus_id (Present null_id_tables) ''Main'' = Inr 1"
    by (simp add: load_campus_id_def null_id_tables_def example_tables_def)
  have h2: "distinct (map fst [(''Calculus I'', CourseChoice ''Calculus I'' [Some ''Cohen''] []),
                         (''Algebra'', CourseChoice ''Algebra'' [] [])])"
    by simp
  have h3: "activities_primary_key (activities null_id_tables)"
    by (simp add: activities_primary_key_def activity_key_def has_activity_id_def
        null_id_tables_def example_tables_def example_activity_def)
  from no_duplicate_activities [OF h1 h2 h3, of "''en''"] h1 h2 h3
  show ?thesis by (intro conjI)
qed

text \<open>
  Against C6 as stated: the table below satisfies its primary key, and the empty choice
  for Calculus I returns its two lectures without activity id, which agree on
  (activity_id, campus, language).
\<close>

theorem null_activity_ids_repeat:
  "activities_primary_key (activities null_id_tables)
   \<and> map_sum id (map activity_id)
       (load_activities_by_courses_choices (Present null_id_tables)
          [(''Calculus I'', CourseChoice ''Calculus I'' [] [])] ''Main'' ''en'')
     = Inr [Some ''A1'', Some ''A2'', Some ''A3'', None, None]"
  by (simp add: activities_primary_key_def activity_key_def has_activity_id_def
      load_activities_by_courses_choices_def load_campus_id_def null_id_tables_def
      example_tables_def activities_of_choice_def select_activities_def example_activity_def
      CourseChoice_def AcademicActivity_def lecture_types_def practice_types_def
      text_hold_place_def)


section \<open>The activity retriever: lecturer filters\<close>

lemma sql_in_member: "sql_in x xs \<Longrightarrow> x \<noteq> None \<and> x \<in> set xs"
  by (cases x) (simp_all add: sql_in_def)

lemma text_hold_place_not_null: "text_hold_place teachers x \<Longrightarrow> x \<noteq> None"
  by (auto simp: text_hold_place_def dest: sql_in_member split: if_splits)

lemma select_activities_kinds:
  assumes "r \<in> set (select_activities t cid language k choice)"
  shows "activity_type r \<in> {LECTURE, SEMINAR, PRACTICE, LAB} \<and> lecturer_name r \<noteq> None"
  using assms
  by (auto simp: select_activities_def lecture_types_def practice_types_def
      dest: text_hold_place_not_null)

lemma select_activities_unconstrained:
  assumes "available_teachers_for_lecture choice = []"
    and "available_teachers_for_practice choice = []"
  shows "set (select_activities t cid language k choice) =
           {r \<in> set (activities t). name r = k \<and> language_value r = language \<and>
              campus_id r = cid \<and> activity_type r \<in> {LECTURE, SEMINAR, PRACTICE, LAB} \<and>
              lecturer_name r \<noteq> None}"
  using assms
  by (auto simp: select_activities_def lecture_types_def practice_types_def text_hold_place_def)

text \<open>
  C4, as the code has it. When the campus resolves and the choice under a course name has
  no lecture and no practice lecturers, the call returns, and the returned activities of
  that name are exactly those built from the rows of that name, campus and language whose
  type is LECTURE, SEMINAR, PRACTICE or LAB and whose lecturer_name is not NULL: the empty
  selection becomes \<open>lecturer_name IS NOT NULL\<close>.
\<close>

theorem empty_choice_is_not_null_filter:
  assumes "load_campus_id (Present t) campus_name = Inr cid"
    and "(n, choice) \<in> set ccs"
    and "available_teachers_for_lecture choice = []"
    and "available_teachers_for_practice choice = []"
  shows "\<exists>result. load_activities_by_courses_choices (Present t) ccs campus_name language
                    = Inr result \<and>
           {a \<in> set result. name a = n} =
             (\<lambda>r. AcademicActivity r (map create_meeting_from_database
                                        (select_meetings t cid language (activity_id r))))
             ` {r \<in> set (activities t). name r = n \<and> language_value r = language \<and>
                  campus_id r = cid \<and> activity_type r \<in> {LECTURE, SEMINAR, PRACTICE, LAB} \<and>
                  lecturer_name r \<noteq> None}"
proof -
  let ?result = "concat (map (\<lambda>(course_name, choice).
                          activities_of_choice t cid language course_name choice) ccs)"
  let ?mk = "\<lambda>r. AcademicActivity r (map create_meeting_from_database
                                        (select_meetings t cid language (activity_id r)))"
  let ?W = "{r \<in> set (activities t). name r = n \<and> language_value r = language \<and>
                  campus_id r = cid \<and> activity_type r \<in> {LECTURE, SEMINAR, PRACTICE, LAB} \<and>
                  lecturer_name r \<noteq> None}"
  have run: "load_activities_by_courses_choices (Present t) ccs campus_name language = Inr ?result"
    using assms(1) by (rule load_activities_Present)
  have all: "set (select_activities t cid language n choice) = ?W"
    using assms(3,4) by (rule select_activities_unconstrained)
  have "{a \<in> set ?result. name a = n} = ?mk ` ?W"
  proof (intro equalityI subsetI)
    fix a
    assume "a \<in> {a \<in> set ?result. name a = n}"
    then obtain k c r where kc: "(k, c) \<in> set ccs"
      and r: "r \<in> set (select_activities t cid language k c)"
      and a: "a = ?mk r" and n: "name a = n"
      unfolding in_result_iff by blast
    from select_activities_scope [OF r] select_activities_kinds [OF r] a n
    have "r \<in> ?W" by simp
    with a show "a \<in> ?mk ` ?W" by (rule_tac image_eqI)
  next
    fix a
    assume "a \<in> ?mk ` ?W"
    then obtain r where r: "r \<in> ?W" and a: "a = ?mk r" by blast
    from r have sel: "r \<in> set (select_activities t cid language n choice)"
      unfolding all .
    from r have "name r = n" by simp
    then have "name a = n" by (simp add: a)
    moreover have "a \<in> set ?result"
      unfolding in_result_iff using assms(2) sel a by blast
    ultimately show "a \<in> {a \<in> set ?result. name a = n}" by simp
  qed
  with run show ?thesis by blast
qed

theorem empty_choice_is_not_null_filter_witness:
  "load_campus_id (Present example_tables) ''Main'' = Inr 1
   \<and> (''Calculus I'', CourseChoice ''Calculus I'' [] [])
        \<in> set [(''Calculus I'', CourseChoice ''Calculus I'' [] [])]
   \<and> available_teachers_for_lecture (CourseChoice ''Calculus I'' [] []) = []
   \<and> available_teachers_for_practice (CourseChoice ''Calculus I'' [] []) = []
   \<and> (\<exists>result. load_activities_by_courses_choices (Present example_tables)
          [(''Calculus I'', CourseChoice ''Calculus I'' [] [])] ''Main'' ''en'' = Inr result \<and>
          {a \<in> set result. name a = ''Calculus I''} =
             (\<lambda>r. AcademicActivity r (map create_meeting_from_database
                                        (select_meetings example_tables 1 ''en'' (activity_id r))))
             ` {r \<in> set (activities example_tables). name r = ''Calculus I'' \<and>
                  language_value r = ''en'' \<and> campus_id r = 1 \<and>
                  activity_type r \<in> {LECTURE, SEMINAR, PRACTICE, LAB} \<and>
                  lecturer_name r \<noteq> None})"
proof -
  have h1: "load_campus_id (Present example_tables) ''Main'' = Inr 1"
    by (simp add: load_campus_id_def example_tables_def)
  have h2: "(''Calculus I'', CourseChoice ''Calculus I'' [] [])
        \<in> set [(''Calculus I'', CourseChoice ''Calculus I'' [] [])]"
    by simp
  have h3: "available_teachers_for_lecture (CourseChoice ''Calculus I'' [] []) = []"
    by (simp add: CourseChoice_def)
  have h4: "available_teachers_for_practice (CourseChoice ''Calculus I'' [] []) = []"
    by (simp add: CourseChoice_def)
  from empty_choice_is_not_null_filter [OF h1 h2 h3 h4, of "''en''"] h1 h2 h3 h4
  show ?thesis by (intro conjI)
qed

text \<open>
  Against C4 as stated: activity A4 of Calculus I on campus Main has no lecturer, and the
  empty choice does not return it.
\<close>

theorem empty_choice_skips_null_lecturer:
  "example_activity ''Calculus I'' LAB None 101 100 ''A4'' 1 ''en''
     \<in> set (activities example_tables)
   \<and> map_sum id (map activity_id)
       (load_activities_by_courses_choices (Present example_tables)
          [(''Calculus I'', CourseChoice ''Calculus I'' [] [])] ''Main'' ''en'')
     = Inr [Some ''A1'', Some ''A2'', Some ''A3'']"
  by (simp add: load_activities_by_courses_choices_def load_campus_id_def example_tables_def
      activities_of_choice_def select_activities_def example_activity_def CourseChoice_def
      AcademicActivity_def lecture_types_def practice_types_def text_hold_place_def)

lemma practice_part:
  "filter (\<lambda>a. activity_type a \<in> set practice_types)
          (activities_of_choice t cid language k choice)
   = map (\<lambda>r. AcademicActivity r (map create_meeting_from_database
                                        (select_meetings t cid language (activity_id r))))
       (filter (\<lambda>r. name r = k \<and> language_value r = language \<and> campus_id r = cid \<and>
                    activity_type r \<in> set practice_types \<and>
                    text_hold_place (available_teachers_for_practice choice) (lecturer_name r))
          (activities t))"
proof -
  have "(activity_type r \<in> set practice_types \<and>
          (name r = k \<and> language_value r = language \<and> campus_id r = cid \<and>
                 ((activity_type r \<in> set lecture_types \<and>
                   text_hold_place (available_teachers_for_lecture choice) (lecturer_name r))
                  \<or>
                  (activity_type r \<in> set practice_types \<and>
                   text_hold_place (available_teachers_for_practice choice) (lecturer_name r)))))
      = (name r = k \<and> language_value r = language \<and> campus_id r = cid \<and>
                    activity_type r \<in> set practice_types \<and>
                    text_hold_place (available_teachers_for_practice choice) (lecturer_name r))"
    for r :: activity_row
    by (auto simp: lecture_types_def practice_types_def)
  then show ?thesis
    by (simp add: activities_of_choice_def select_activities_def filter_map o_def conj_commute)
qed

lemma practice_part_concat:
  "filter (\<lambda>a. activity_type a \<in> set practice_types)
     (concat (map (\<lambda>(course_name, choice).
                     activities_of_choice t cid language course_name choice) ccs))
   = concat (map (\<lambda>(course_name, choice).
        filter (\<lambda>a. activity_type a \<in> set practice_types)
          (activities_of_choice t cid language course_name choice)) ccs)"
  by (induction ccs) auto

lemma select_activities_restricted:
  assumes "available_teachers_for_lecture choice \<noteq> []"
  shows "set (select_activities t cid language k choice) =
           {r \<in> set (activities t). name r = k \<and> language_value r = language \<and>
              campus_id r = cid \<and> lecturer_name r \<noteq> None \<and>
              ((activity_type r \<in> {LECTURE, SEMINAR} \<and>
                lecturer_name r \<in> set (available_teachers_for_lecture choice))
               \<or>
               (activity_type r \<in> {PRACTICE, LAB} \<and>
                (available_teachers_for_practice choice = [] \<or>
                 lecturer_name r \<in> set (available_teachers_for_practice choice))))}"
  using assms
  by (auto simp: select_activities_def lecture_types_def practice_types_def text_hold_place_def
      sql_in_def split: option.splits)

text \<open>
  C5. When the campus resolves, the keys of \<open>courses_choices\<close> are distinct and the choice
  under a course name has a non-empty list of lecture lecturers, the call returns, and:
  every returned LECTURE or SEMINAR activity of that name has its lecturer in that list;
  the returned activities of that name are exactly those built from the rows of that
  name, campus and language that have a lecturer and are either LECTURE or SEMINAR with
  the lecturer in the lecture list, or PRACTICE or LAB with the lecturer in the practice
  list or with the practice list empty, so that each group is gated by its own list
  alone; and the PRACTICE and LAB activities returned are the same, in the same order,
  whatever list of lecture lecturers, the empty one included, stands under that name
  instead.
\<close>

theorem lecture_restriction:
  assumes "load_campus_id (Present t) campus_name = Inr cid"
    and "distinct (map fst ccs)"
    and "(n, choice) \<in> set ccs"
    and "available_teachers_for_lecture choice \<noteq> []"
  shows "\<exists>result. load_activities_by_courses_choices (Present t) ccs campus_name language
                    = Inr result \<and>
           (\<forall>a \<in> set result. name a = n \<and> activity_type a \<in> set lecture_types \<longrightarrow>
              lecturer_name a \<in> set (available_teachers_for_lecture choice)) \<and>
           {a \<in> set result. name a = n} =
             (\<lambda>r. AcademicActivity r (map create_meeting_from_database
                                        (select_meetings t cid language (activity_id r))))
             ` {r \<in> set (activities t). name r = n \<and> language_value r = language \<and>
                  campus_id r = cid \<and> lecturer_name r \<noteq> None \<and>
                  ((activity_type r \<in> {LECTURE, SEMINAR} \<and>
                    lecturer_name r \<in> set (available_teachers_for_lecture choice))
                   \<or>
                   (activity_type r \<in> {PRACTICE, LAB} \<and>
                    (available_teachers_for_practice choice = [] \<or>
                     lecturer_name r \<in> set (available_teachers_for_practice choice))))} \<and>
           (\<forall>ls. \<exists>result'.
              load_activities_by_courses_choices (Present t)
                (map (\<lambda>(k, c). (k, if k = n then c\<lparr>available_teachers_for_lecture := ls\<rparr> else c))
                   ccs) campus_name language = Inr result' \<and>
              filter (\<lambda>a. activity_type a \<in> set practice_types) result' =
              filter (\<lambda>a. activity_type a \<in> set practice_types) result)"
proof -
  let ?f = "\<lambda>(course_name, choice). activities_of_choice t cid language course_name choice"
  let ?result = "concat (map ?f ccs)"
  let ?mk = "\<lambda>r. AcademicActivity r (map create_meeting_from_database
                                        (select_meetings t cid language (activity_id r)))"
  let ?S = "{r \<in> set (activities t). name r = n \<and> language_value r = language \<and>
                  campus_id r = cid \<and> lecturer_name r \<noteq> None \<and>
                  ((activity_type r \<in> {LECTURE, SEMINAR} \<and>
                    lecturer_name r \<in> set (available_teachers_for_lecture choice))
                   \<or>
                   (activity_type r \<in> {PRACTICE, LAB} \<and>
                    (available_teachers_for_practice choice = [] \<or>
                     lecturer_name r \<in> set (available_teachers_for_practice choice))))}"
  have run: "load_activities_by_courses_choices (Present t) ccs campus_name language = Inr ?result"
    using assms(1) by (rule load_activities_Present)
  have sel: "set (select_activities t cid language n choice) = ?S"
    using assms(4) by (rule select_activities_restricted)
  have from_choice: "r \<in> ?S"
    if kc: "(k, c) \<in> set ccs" and r: "r \<in> set (select_activities t cid language k c)"
      and n: "name r = n" for k c r
  proof -
    from select_activities_scope [OF r] n have "k = n" by simp
    with kc assms(2,3) have "c = choice"
      by (auto dest: eq_key_imp_eq_value)
    with r \<open>k = n\<close> show ?thesis
      unfolding sel [symmetric] by simp
  qed
  have lect: "lecturer_name a \<in> set (available_teachers_for_lecture choice)"
    if a: "a \<in> set ?result" and n: "name a = n" and ty: "activity_type a \<in> set lecture_types"
    for a
  proof -
    from a obtain k c r where kc: "(k, c) \<in> set ccs"
      and r: "r \<in> set (select_activities t cid language k c)"
      and mk: "a = ?mk r"
      unfolding in_result_iff by blast
    from n mk have "name r = n" by simp
    from from_choice [OF kc r this] ty mk
    show ?thesis
      by (auto simp: lecture_types_def)
  qed
  have exact: "{a \<in> set ?result. name a = n} = ?mk ` ?S"
  proof (intro equalityI subsetI)
    fix a
    assume "a \<in> {a \<in> set ?result. name a = n}"
    then obtain k c r where kc: "(k, c) \<in> set ccs"
      and r: "r \<in> set (select_activities t cid language k c)"
      and a: "a = ?mk r" and n: "name a = n"
      unfolding in_result_iff by blast
    from n a have "name r = n" by simp
    from from_choice [OF kc r this] have "r \<in> ?S" .
    with a show "a \<in> ?mk ` ?S" by (rule_tac image_eqI)
  next
    fix a
    assume "a \<in> ?mk ` ?S"
    then obtain r where r: "r \<in> ?S" and a: "a = ?mk r" by blast
    from r have in_sel: "r \<in> set (select_activities t cid language n choice)"
      unfolding sel .
    from r have "name r = n" by simp
    then have "name a = n" by (simp add: a)
    moreover have "a \<in> set ?result"
      unfolding in_result_iff using assms(3) in_sel a by blast
    ultimately show "a \<in> {a \<in> set ?result. name a = n}" by simp
  qed
  have other: "\<exists>result'.
              load_activities_by_courses_choices (Present t)
                (map (\<lambda>(k, c). (k, if k = n then c\<lparr>available_teachers_for_lecture := ls\<rparr> else c))
                   ccs) campus_name language = Inr result' \<and>
              filter (\<lambda>a. activity_type a \<in> set practice_types) result' =
              filter (\<lambda>a. activity_type a \<in> set practice_types) ?result" for ls
  proof -
    let ?ccs' = "map (\<lambda>(k, c). (k, if k = n then c\<lparr>available_teachers_for_lecture := ls\<rparr> else c))
                   ccs"
    have run': "load_activities_by_courses_choices (Present t) ?ccs' campus_name language
                  = Inr (concat (map ?f ?ccs'))"
      using assms(1) by (rule load_activities_Present)
    have "filter (\<lambda>a. activity_type a \<in> set practice_types) (concat (map ?f ?ccs'))
        = filter (\<lambda>a. activity_type a \<in> set practice_types) (concat (map ?f ccs))"
      unfolding practice_part_concat
      by (induction ccs) (auto simp: practice_part)
    with run' show ?thesis by blast
  qed
  from lect have first: "\<forall>a \<in> set ?result.
      name a = n \<and> activity_type a \<in> set lecture_types \<longrightarrow>
      lecturer_name a \<in> set (available_teachers_for_lecture choice)"
    by blast
  from other have last: "\<forall>ls. \<exists>result'.
              load_activities_by_courses_choices (Present t)
                (map (\<lambda>(k, c). (k, if k = n then c\<lparr>available_teachers_for_lecture := ls\<rparr> else c))
                   ccs) campus_name language = Inr result' \<and>
              filter (\<lambda>a. activity_type a \<in> set practice_types) result' =
              filter (\<lambda>a. activity_type a \<in> set practice_types) ?result"
    by (rule allI)
  show ?thesis
    by (intro exI [of _ ?result] conjI) (rule run, rule first, rule exact, rule last)
qed

theorem lecture_restriction_witness:
  "load_campus_id (Present example_tables) ''Main'' = Inr 1
   \<and> distinct (map fst [(''Calculus I'', CourseChoice ''Calculus I'' [Some ''Cohen''] [])])
   \<and> (''Calculus I'', CourseChoice ''Calculus I'' [Some ''Cohen''] [])
        \<in> set [(''Calculus I'', CourseChoice ''Calculus I'' [Some ''Cohen''] [])]
   \<and> available_teachers_for_lecture (CourseChoice ''Calculus I'' [Some ''Cohen''] []) \<noteq> []
   \<and> (\<exists>result. load_activities_by_courses_choices (Present example_tables)
          [(''Calculus I'', CourseChoice ''Calculus I'' [Some ''Cohen''] [])] ''Main'' ''en''
            = Inr result \<and>
          (\<forall>a \<in> set result.
              name a = ''Calculus I'' \<and> activity_type a \<in> set lecture_types \<longrightarrow>
              lecturer_name a
                \<in> set (available_teachers_for_lecture
                         (CourseChoice ''Calculus I'' [Some ''Cohen''] []))) \<and>
          (\<exists>result'. load_activities_by_courses_choices (Present example_tables)
              (map (\<lambda>(k, c). (k, if k = ''Calculus I''
                                  then c\<lparr>available_teachers_for_lecture := []\<rparr> else c))
                 [(''Calculus I'', CourseChoice ''Calculus I'' [Some ''Cohen''] [])])
              ''Main'' ''en'' = Inr result' \<and>
            filter (\<lambda>a. activity_type a \<in> set practice_types) result' =
            filter (\<lambda>a. activity_type a \<in> set practice_types) result))"
proof -
  have h1: "load_campus_id (Present example_tables) ''Main'' = Inr 1"
    by (simp add: load_campus_id_def example_tables_def)
  have h2: "distinct (map fst [(''Calculus I'', CourseChoice ''Calculus I'' [Some ''Cohen''] [])])"
    by simp
  have h3: "(''Calculus I'', CourseChoice ''Calculus I'' [Some ''Cohen''] [])
        \<in> set [(''Calculus I'', CourseChoice ''Calculus I'' [Some ''Cohen''] [])]"
    by simp
  have h4: "available_teachers_for_lecture (CourseChoice ''Calculus I'' [Some ''Cohen''] []) \<noteq> []"
    by (simp add: CourseChoice_def)
  from lecture_restriction [OF h1 h2 h3 h4, of "''en''"]
  obtain result where
    run: "load_activities_by_courses_choices (Present example_tables)
          [(''Calculus I'', CourseChoice ''Calculus I'' [Some ''Cohen''] [])] ''Main'' ''en''
            = Inr result"
    and first: "\<forall>a \<in> set result.
              name a = ''Calculus I'' \<and> activity_type a \<in> set lecture_types \<longrightarrow>
              lecturer_name a
                \<in> set (available_teachers_for_lecture
                         (CourseChoice ''Calculus I'' [Some ''Cohen''] []))"
    and last: "\<forall>ls. \<exists>result'. load_activities_by_courses_choices (Present example_tables)
              (map (\<lambda>(k, c). (k, if k = ''Calculus I''
                                  then c\<lparr>available_teachers_for_lecture := ls\<rparr> else c))
                 [(''Calculus I'', CourseChoice ''Calculus I'' [Some ''Cohen''] [])])
              ''Main'' ''en'' = Inr result' \<and>
            filter (\<lambda>a. activity_type a \<in> set practice_types) result' =
            filter (\<lambda>a. activity_type a \<in> set practice_types) result"
    by blast
  from last have "\<exists>result'. load_activities_by_courses_choices (Present example_tables)
              (map (\<lambda>(k, c). (k, if k = ''Calculus I''
                                  then c\<lparr>available_teachers_for_lecture := []\<rparr> else c))
                 [(''Calculus I'', CourseChoice ''Calculus I'' [Some ''Cohen''] [])])
              ''Main'' ''en'' = Inr result' \<and>
            filter (\<lambda>a. activity_type a \<in> set practice_types) result' =
            filter (\<lambda>a. activity_type a \<in> set practice_types) result"
    by (rule spec)
  with run first have "\<exists>result. load_activities_by_courses_choices (Present example_tables)
          [(''Calculus I'', CourseChoice ''Calculus I'' [Some ''Cohen''] [])] ''Main'' ''en''
            = Inr result \<and>
          (\<forall>a \<in> set result.
              name a = ''Calculus I'' \<and> activity_type a \<in> set lecture_types \<longrightarrow>
              lecturer_name a
                \<in> set (available_teachers_for_lecture
                         (CourseChoice ''Calculus I'' [Some ''Cohen''] []))) \<and>
          (\<exists>result'. load_activities_by_courses_choices (Present example_tables)
              (map (\<lambda>(k, c). (k, if k = ''Calculus I''
                                  then c\<lparr>available_teachers_for_lecture := []\<rparr> else c))
                 [(''Calculus I'', CourseChoice ''Calculus I'' [Some ''Cohen''] [])])
              ''Main'' ''en'' = Inr result' \<and>
            filter (\<lambda>a. activity_type a \<in> set practice_types) result' =
            filter (\<lambda>a. activity_type a \<in> set practice_types) result)"
    by blast
  with h1 h2 h3 h4 show ?thesis
    by (intro conjI)
qed

end
